theory Spec2Isabelle
  imports Main
begin

section \<open>Values, documents and exceptions\<close>

text \<open>
  The system module of caligo (\<^verbatim>\<open>caligo/modules/system.py\<close>) keeps its restart state in a
  document store. A stored value is a Python value as the store returns it: \<open>None\<close>, an
  integer, a string, a list or a nested document. A document is a dictionary with string
  keys; the order of its fields matters to the store's equality of embedded documents, so
  it is an association list.
\<close>

datatype val = VNone | VInt int | VStr string | VList "val list" | VDoc "(string \<times> val) list"

type_synonym doc = "(string \<times> val) list"

text \<open>
  The exceptions the modelled code can raise by itself, and \<open>External\<close> for a failure
  reported by a collaborator (the chat client, the operating system, the snippet).
\<close>

datatype exn = TypeError | IndexError | KeyError | AttributeError | WriteError | External string

text \<open>\<^verbatim>\<open>d.get(k)\<close>: the value stored under \<open>k\<close>, or \<open>None\<close>.\<close>

definition dict_get :: "doc \<Rightarrow> string \<Rightarrow> val" where
  "dict_get d k = (case map_of d k of None \<Rightarrow> VNone | Some v \<Rightarrow> v)"

text \<open>
  \<^verbatim>\<open>v[0]\<close>: \<open>None\<close> and integers are not subscriptable, an empty list or string has no
  first element, and a dictionary with string keys has no key \<open>0\<close>.
\<close>

fun subscript0 :: "val \<Rightarrow> exn + val" where
  "subscript0 VNone = Inl TypeError"
| "subscript0 (VInt _) = Inl TypeError"
| "subscript0 (VStr []) = Inl IndexError"
| "subscript0 (VStr (c # _)) = Inr (VStr [c])"
| "subscript0 (VList []) = Inl IndexError"
| "subscript0 (VList (x # _)) = Inr x"
| "subscript0 (VDoc _) = Inl KeyError"

text \<open>\<^verbatim>\<open>now - v\<close> for an integer \<open>now\<close>: only an integer can be subtracted.\<close>

fun int_sub :: "int \<Rightarrow> val \<Rightarrow> exn + int" where
  "int_sub now (VInt t) = Inr (now - t)"
| "int_sub now _ = Inl TypeError"

fun doc_put :: "string \<Rightarrow> val \<Rightarrow> doc \<Rightarrow> doc" where
  "doc_put k v [] = [(k, v)]"
| "doc_put k v ((k', v') # d) = (if k = k' then (k, v) # d else (k', v') # doc_put k v d)"

section \<open>The module's state and its collaborators\<close>

record message =
  chat_id :: int
  message_id :: int

text \<open>
  What the module does to the outside world is recorded, in order, as a trace of events:
  the calls on the store, the log, the chat client and the bot.
\<close>

datatype event =
    FindOne int
  | UpdateOne int val
  | DeleteOne int
  | LogInfo string
  | CtxRespond string
  | GetMessages val val
  | BotRespond message string
  | SetStopManual
  | BotStop

text \<open>
  \<open>db\<close> is the collection \<^verbatim>\<open>self.db\<close>, keyed by \<^verbatim>\<open>_id\<close>; it outlives the process.
  \<open>restart_pending\<close> is the attribute of the same name, local to the process.
\<close>

record state =
  db :: "int \<rightharpoonup> doc"
  restart_pending :: bool
  trace :: "event list"

definition emit :: "event \<Rightarrow> state \<Rightarrow> state" where
  "emit ev s = s\<lparr>trace := trace s @ [ev]\<rparr>"

text \<open>
  The collaborators, as the code sees them: the bot's identity \<^verbatim>\<open>self.bot.uid\<close>, one
  reading of the clock \<^verbatim>\<open>util.time.usec()\<close>, the duration formatter
  \<^verbatim>\<open>util.time.format_duration_us\<close> (its module is not part of the sources at hand, so
  it is a parameter), and the chat client, whose calls may raise.
\<close>

record env =
  uid :: int
  usec :: int
  format_duration_us :: "int \<Rightarrow> string"
  ctx_respond :: "string \<Rightarrow> exn + message"
  get_messages :: "val \<Rightarrow> val \<Rightarrow> exn + message"
  bot_respond :: "message \<Rightarrow> string \<Rightarrow> exn option"

text \<open>\<^verbatim>\<open>on_load\<close>: a process starts with no restart pending.\<close>

definition on_load :: "(int \<rightharpoonup> doc) \<Rightarrow> state" where
  "on_load store = \<lparr>db = store, restart_pending = False, trace = []\<rparr>"

section \<open>The restart state store\<close>

text \<open>
  \<^verbatim>\<open>update_one({"_id": k}, {"$addToSet": {f: v}}, upsert=True)\<close> of the document store:
  the document is created when absent, the field is created when absent, the value is
  appended to the array unless it is there already, and a field that is not an array is
  a write error.
\<close>

definition add_to_set :: "string \<Rightarrow> val \<Rightarrow> doc option \<Rightarrow> exn + doc" where
  "add_to_set f v d =
     (case d of
        None \<Rightarrow> Inr [(f, VList [v])]
      | Some old \<Rightarrow>
          (case map_of old f of
             None \<Rightarrow> Inr (old @ [(f, VList [v])])
           | Some (VList xs) \<Rightarrow>
               Inr (doc_put f (VList (if v \<in> set xs then xs else xs @ [v])) old)
           | Some _ \<Rightarrow> Inl WriteError))"

definition update_one :: "int \<Rightarrow> string \<Rightarrow> val \<Rightarrow> state \<Rightarrow> exn + state" where
  "update_one k f v s =
     (case add_to_set f v (db s k) of
        Inl x \<Rightarrow> Inl x
      | Inr d \<Rightarrow> Inr (s\<lparr>db := (db s)(k \<mapsto> d)\<rparr>))"

definition delete_one :: "int \<Rightarrow> state \<Rightarrow> state" where
  "delete_one k s = emit (DeleteOne k) (s\<lparr>db := (db s)(k := None)\<rparr>)"

section \<open>The restart coordinator\<close>

text \<open>
  \<^verbatim>\<open>cmd_restart(ctx, restart_time=None, reason="manual")\<close>. The time written is
  \<^verbatim>\<open>restart_time or util.time.usec()\<close>: the clock when no time, or the time 0, is given.
  The lock serialises writers; in this sequential model taking it changes nothing.
\<close>

definition restart_record :: "env \<Rightarrow> message \<Rightarrow> int option \<Rightarrow> string \<Rightarrow> val" where
  "restart_record e resp_msg restart_time reason =
     VDoc [(''status_chat_id'', VInt (chat_id resp_msg)),
           (''status_message_id'', VInt (message_id resp_msg)),
           (''time'', VInt (case restart_time of
                               None \<Rightarrow> usec e
                             | Some t \<Rightarrow> if t = 0 then usec e else t)),
           (''reason'', VStr reason)]"

definition cmd_restart :: "env \<Rightarrow> int option \<Rightarrow> string \<Rightarrow> state \<Rightarrow> (exn + unit) \<times> state" where
  "cmd_restart e restart_time reason s =
     (let s1 = emit (CtxRespond ''Restarting bot...'') s in
      case ctx_respond e ''Restarting bot...'' of
        Inl x \<Rightarrow> (Inl x, s1)
      | Inr resp_msg \<Rightarrow>
          (let r = restart_record e resp_msg restart_time reason;
               s2 = emit (UpdateOne (uid e) r) s1
           in case update_one (uid e) ''restart'' r s2 of
                Inl x \<Rightarrow> (Inl x, s2)
              | Inr s3 \<Rightarrow>
                  (let s4 = s3\<lparr>restart_pending := True\<rparr>;
                       s5 = emit SetStopManual s4;
                       s6 = emit (LogInfo ''Preparing to restart...'') s5;
                       s7 = emit BotStop s6
                   in (Inr (), s7))))"

text \<open>
  \<^verbatim>\<open>on_start\<close>, run once at boot. The four \<^verbatim>\<open>restart.get(...)\<close> calls need \<open>restart\<close> to
  be a dictionary; on any other value the first of them raises \<open>AttributeError\<close>. The
  reason is read under the key \<^verbatim>\<open>"restart_reason"\<close>.
\<close>

definition report :: "string \<Rightarrow> string \<Rightarrow> string" where
  "report updated duration = ''Bot '' @ updated @ ''restarted in '' @ duration"

definition on_start :: "env \<Rightarrow> state \<Rightarrow> (exn + unit) \<times> state" where
  "on_start e s =
     (let s1 = emit (FindOne (uid e)) s in
      case db s1 (uid e) of
        None \<Rightarrow> (Inr (), s1)
      | Some data \<Rightarrow>
          (case subscript0 (dict_get data ''restart'') of
             Inl x \<Rightarrow> (Inl x, s1)
           | Inr (VDoc restart) \<Rightarrow>
               (let rs_time = dict_get restart ''time'';
                    rs_chat_id = dict_get restart ''status_chat_id'';
                    rs_message_id = dict_get restart ''status_message_id'';
                    rs_reason = dict_get restart ''restart_reason'';
                    s2 = delete_one (uid e) s1
                in if rs_chat_id = VNone \<or> rs_message_id = VNone then (Inr (), s2)
                   else
                     (let updated = (if rs_reason = VStr ''update'' then ''updated and '' else '''')
                      in case int_sub (usec e) rs_time of
                           Inl x \<Rightarrow> (Inl x, s2)
                         | Inr d \<Rightarrow>
                             (let duration = format_duration_us e d;
                                  s3 = emit (LogInfo (report updated duration)) s2;
                                  s4 = emit (GetMessages rs_chat_id rs_message_id) s3
                              in case get_messages e rs_chat_id rs_message_id of
                                   Inl x \<Rightarrow> (Inl x, s4)
                                 | Inr status_msg \<Rightarrow>
                                     (let s5 = emit (BotRespond status_msg
                                                       (report updated duration @ ''.'')) s4
                                      in case bot_respond e status_msg
                                                (report updated duration @ ''.'') of
                                           Some x \<Rightarrow> (Inl x, s5)
                                         | None \<Rightarrow> (Inr (), s5)))))
           | Inr _ \<Rightarrow> (Inl AttributeError, s1)))"

section \<open>The process supervisor hook\<close>

text \<open>
  A process is launched from an executable with a command line. \<^verbatim>\<open>on_stopped\<close> calls
  \<^verbatim>\<open>os.execv(sys.executable, (sys.executable, "-m", "caligo"))\<close> when a restart is pending;
  \<open>execv\<close> replaces the process image and does not return (\<open>None\<close>), or raises.
\<close>

record process =
  executable :: string
  orig_argv :: "string list"

datatype stopped = Replaced string "string list" | Raised exn | Returned

definition on_stopped ::
  "(string \<Rightarrow> string list \<Rightarrow> exn option) \<Rightarrow> process \<Rightarrow> state \<Rightarrow> stopped \<times> state" where
  "on_stopped execv p s =
     (if restart_pending s then
        (let s1 = emit (LogInfo ''Starting new bot instance...\<newline>'') s;
             argv = [executable p, ''-m'', ''caligo'']
         in case execv (executable p) argv of
              None \<Rightarrow> (Replaced (executable p) argv, s1)
            | Some x \<Rightarrow> (Raised x, s1))
      else (Returned, s))"

section \<open>Evaluating a snippet\<close>

text \<open>
  A traceback entry (\<^verbatim>\<open>traceback.FrameSummary\<close>) and an exception raised while the snippet
  ran: its type name, its message, whether it is an instance of \<^verbatim>\<open>Exception\<close> (what
  \<^verbatim>\<open>except Exception\<close> catches) and its traceback, outermost frame first.
\<close>

record frame =
  filename :: string
  lineno :: nat
  funcname :: string

record raised =
  exc_type :: string
  exc_msg :: string
  is_exception :: bool
  tb :: "frame list"

text \<open>
  The value a snippet returns: \<open>None\<close>, an integer, a string, or any other object, given
  by its \<^verbatim>\<open>str()\<close>.
\<close>

datatype pyobj = PyNone | PyInt int | PyStr string | PyObj string

fun str_nat :: "nat \<Rightarrow> string" where
  "str_nat n =
     (if n < 10 then [''0123456789'' ! n]
      else str_nat (n div 10) @ [''0123456789'' ! (n mod 10)])"

declare str_nat.simps [simp del]

definition str_int :: "int \<Rightarrow> string" where
  "str_int i = (if i < 0 then ''-'' @ str_nat (nat (- i)) else str_nat (nat i))"

fun py_str :: "pyobj \<Rightarrow> string" where
  "py_str PyNone = ''None''"
| "py_str (PyInt i) = str_int i"
| "py_str (PyStr s) = s"
| "py_str (PyObj s) = s"

text \<open>\<^verbatim>\<open>print(s, file=buf)\<close>: the text and a newline are appended to the buffer.\<close>

definition print_to :: "string \<Rightarrow> string \<Rightarrow> string" where
  "print_to s buf = buf @ s @ ''\<newline>''"

text \<open>
  What running the snippet under \<^verbatim>\<open>meval\<close> did: the text it left in \<^verbatim>\<open>out_buf\<close> (through
  the \<^verbatim>\<open>print\<close> override or \<^verbatim>\<open>stdout\<close>), and the value it returned or the exception it
  raised.
\<close>

record run =
  printed :: string
  outcome :: "raised + pyobj"

definition endswith :: "string \<Rightarrow> string \<Rightarrow> bool" where
  "endswith s suf = (length suf \<le> length s \<and> drop (length s - length suf) s = suf)"

text \<open>The test of the loop over the traceback: the frame involves the snippet.\<close>

definition is_snip_frame :: "frame \<Rightarrow> bool" where
  "is_snip_frame f = (filename f = ''<string>'' \<or> endswith (filename f) ''ast.py'')"

text \<open>
  The loop \<^verbatim>\<open>for i, frame in enumerate(tb)\<close> with its \<^verbatim>\<open>break\<close>: the index of the first
  frame that passes the test, or \<open>-1\<close>.
\<close>

fun find_snip :: "frame list \<Rightarrow> nat \<Rightarrow> int" where
  "find_snip [] i = - 1"
| "find_snip (f # fs) i = (if is_snip_frame f then int i else find_snip fs (Suc i))"

definition first_snip_idx :: "frame list \<Rightarrow> int" where
  "first_snip_idx t = find_snip t 0"

text \<open>\<^verbatim>\<open>tb[first_snip_idx:]\<close>, taken when the index is not \<open>-1\<close>.\<close>

definition stripped_tb :: "frame list \<Rightarrow> frame list" where
  "stripped_tb t = drop (nat (first_snip_idx t)) t"

text \<open>The warning sign that starts the error replies, as its UTF-8 bytes.\<close>

definition warning_sign :: string where
  "warning_sign = [CHR 0xE2, CHR 0x9A, CHR 0xA0, CHR 0xEF, CHR 0xB8, CHR 0x8F]"

text \<open>
  The inner function \<^verbatim>\<open>_eval\<close>: the prefix and the result, or the exception that leaves
  it. \<^verbatim>\<open>util.error.format_exception\<close> is not part of the sources at hand and is a
  parameter: it receives the exception and the frames to show.
\<close>

definition inner_eval :: "(raised \<Rightarrow> frame list \<Rightarrow> string) \<Rightarrow> run \<Rightarrow> raised + (string \<times> pyobj)" where
  "inner_eval format_exc r =
     (case outcome r of
        Inr v \<Rightarrow> Inr ('''', v)
      | Inl e \<Rightarrow>
          if \<not> is_exception e then Inl e
          else if first_snip_idx (tb e) = - 1 then Inl e
          else Inr (warning_sign @ '' Error executing snippet\<newline>\<newline>'',
                    PyStr (format_exc e (stripped_tb (tb e)))))"

text \<open>
  The buffer after \<^verbatim>\<open>if not out_buf.getvalue() or result is not None: print(result,
  file=out_buf)\<close>, and the text after \<^verbatim>\<open>if out.endswith("\n"): out = out[:-1]\<close>.
\<close>

definition final_buf :: "string \<Rightarrow> pyobj \<Rightarrow> string" where
  "final_buf out_buf result =
     (if out_buf = [] \<or> result \<noteq> PyNone then print_to (py_str result) out_buf else out_buf)"

definition strip_final_newline :: "string \<Rightarrow> string" where
  "strip_final_newline out = (if endswith out ''\<newline>'' then butlast out else out)"

text \<open>\<^verbatim>\<open>text.split(" ", 1)[1]\<close>: what follows the first space; \<open>IndexError\<close> without one.\<close>

fun after_first_space :: "string \<Rightarrow> string option" where
  "after_first_space [] = None"
| "after_first_space (c # cs) = (if c = CHR '' '' then Some cs else after_first_space cs)"

record cmd_context =
  ctx_cmd :: "string list"
  msg_text :: string

record eval_env =
  meval :: "string \<Rightarrow> run"
  format_exception :: "raised \<Rightarrow> frame list \<Rightarrow> string"
  eval_format_duration_us :: "int \<Rightarrow> string"
  before :: int
  after :: int

datatype eval_result = Reply string | Reraised raised | Failed exn

definition eval_report :: "string \<Rightarrow> string \<Rightarrow> string \<Rightarrow> string \<Rightarrow> string" where
  "eval_report prefix code out el_str =
     prefix @ ''**In:**\<newline>```'' @ code @ ''```\<newline>\<newline>**Out:**\<newline>```'' @ out
       @ ''```\<newline>\<newline>Time: '' @ el_str"

definition cmd_eval :: "eval_env \<Rightarrow> cmd_context \<Rightarrow> eval_result" where
  "cmd_eval ee ctx =
     (if ctx_cmd ctx = [] then Reply ''Give me code to evaluate.''
      else case after_first_space (msg_text ctx) of
        None \<Rightarrow> Failed IndexError
      | Some code \<Rightarrow>
          (let r = meval ee code in
           case inner_eval (format_exception ee) r of
             Inl e \<Rightarrow> Reraised e
           | Inr (prefix, result) \<Rightarrow>
               (let out_buf = final_buf (printed r) result;
                    el_us = after ee - before ee;
                    el_str = eval_format_duration_us ee el_us;
                    out = strip_final_newline out_buf
                in Reply (eval_report prefix code out el_str))))"

section \<open>Self-update\<close>

text \<open>
  The Git collaborator and the host, as \<^verbatim>\<open>cmd_update\<close> sees them: whether \<^verbatim>\<open>git\<close> is
  there, the repository, the remote found by name (\<open>None\<close> for the \<^verbatim>\<open>ValueError\<close> of
  \<^verbatim>\<open>repo.remote\<close>) or tracked by the current branch, the clock read before the pull, the
  pull, the \<^verbatim>\<open>a_path\<close> of every change of \<^verbatim>\<open>old_commit.diff()\<close>, the virtualenv prefix,
  and the run of \<^verbatim>\<open>pip install\<close> (given the prefix and the working tree) with its output
  and return code.
\<close>

record repo =
  active_branch_name :: string
  working_tree_dir :: string

record update_env =
  have_git :: bool
  get_repo :: "repo option"
  repo_remote :: "string \<Rightarrow> string option"
  get_current_remote :: "string option"
  update_time :: int
  remote_pull :: "exn option"
  commit_diff :: "string list"
  get_venv_path :: "string option"
  pip_install :: "string \<Rightarrow> string \<Rightarrow> exn + (string \<times> int)"

text \<open>The truth value of an optional string: \<open>None\<close> and the empty string are false.\<close>

fun truthy :: "string option \<Rightarrow> bool" where
  "truthy None = False"
| "truthy (Some []) = False"
| "truthy (Some (c # cs)) = True"

text \<open>The remote to pull from, or the reply that ends the command.\<close>

definition resolve_remote :: "update_env \<Rightarrow> repo \<Rightarrow> string option \<Rightarrow> string + string" where
  "resolve_remote u r remote_name =
     (if truthy remote_name then
        (case repo_remote u (the remote_name) of
           None \<Rightarrow> Inl (''__Remote__ `'' @ the remote_name @ ''` __not found.__'')
         | Some remote \<Rightarrow> Inr remote)
      else
        (case get_current_remote u of
           None \<Rightarrow> Inl (''__Current branch__ `'' @ active_branch_name r
                           @ ''` __is not tracking a remote.__'')
         | Some remote \<Rightarrow> Inr remote))"

definition pip_failed_reply :: "string \<Rightarrow> string" where
  "pip_failed_reply out =
     warning_sign @ '' Error updating dependencies:\<newline>\<newline>```'' @ out
       @ ''```\<newline>\<newline>Fix the issue manually and then restart the bot.''"

definition manual_update_reply :: string where
  "manual_update_reply =
     ''Successfully pulled updates.\<newline>\<newline>**Update dependencies manually** to avoid errors, then restart the bot for the update to take effect.\<newline>\<newline>Dependency updates are automatic if you're running the bot in a virtualenv.''"

text \<open>The last two lines: \<^verbatim>\<open>await self.cmd_restart(ctx, restart_time=update_time,
  reason="update")\<close>, then \<^verbatim>\<open>return None\<close>.\<close>

definition restart_after_update :: "update_env \<Rightarrow> env \<Rightarrow> state \<Rightarrow> (exn + string option) \<times> state" where
  "restart_after_update u e s =
     (case cmd_restart e (Some (update_time u)) ''update'' s of
        (Inl x, s') \<Rightarrow> (Inl x, s')
      | (Inr _, s') \<Rightarrow> (Inr None, s'))"

definition cmd_update ::
  "update_env \<Rightarrow> env \<Rightarrow> string option \<Rightarrow> state \<Rightarrow> (exn + string option) \<times> state" where
  "cmd_update u e remote_name s =
     (if \<not> have_git u then
        (Inr (Some ''__The__ `git` __command is required for self-updating.__''), s)
      else case get_repo u of
        None \<Rightarrow> (Inr (Some ''__Unable to locate Git repository data.__''), s)
      | Some r \<Rightarrow>
          (case resolve_remote u r remote_name of
             Inl reply \<Rightarrow> (Inr (Some reply), s)
           | Inr remote \<Rightarrow>
               (let s1 = emit (CtxRespond (''Pulling changes from `'' @ remote @ ''`...'')) s in
                case ctx_respond e (''Pulling changes from `'' @ remote @ ''`...'') of
                  Inl x \<Rightarrow> (Inl x, s1)
                | Inr _ \<Rightarrow>
                    (case remote_pull u of
                       Some x \<Rightarrow> (Inl x, s1)
                     | None \<Rightarrow>
                         if commit_diff u = [] then (Inr (Some ''No updates found.''), s1)
                         else if ''poetry.lock'' \<in> set (commit_diff u) then
                           (if truthy (get_venv_path u) then
                              (let s2 = emit (CtxRespond ''Updating dependencies...'') s1 in
                               case ctx_respond e ''Updating dependencies...'' of
                                 Inl x \<Rightarrow> (Inl x, s2)
                               | Inr _ \<Rightarrow>
                                   (case pip_install u (the (get_venv_path u)) (working_tree_dir r) of
                                      Inl x \<Rightarrow> (Inl x, s2)
                                    | Inr (out, ret) \<Rightarrow>
                                        if ret \<noteq> 0 then (Inr (Some (pip_failed_reply out)), s2)
                                        else restart_after_update u e s2))
                            else (Inr (Some manual_update_reply), s1))
                         else restart_after_update u e s1))))"

text \<open>
  \<^verbatim>\<open>cmd_restart\<close> begins by answering \<^verbatim>\<open>"Restarting bot..."\<close>, which nothing else in the
  module sends: the calls of \<^verbatim>\<open>cmd_restart\<close> are counted by these answers in the trace.
\<close>

definition restart_calls :: "event list \<Rightarrow> nat" where
  "restart_calls t = length (filter (\<lambda>ev. ev = CtxRespond ''Restarting bot...'') t)"

section \<open>Silencing standard output\<close>

text \<open>
  \<^verbatim>\<open>caligo/util/silent.py\<close>. The part of the interpreter it touches: the stream
  \<^verbatim>\<open>sys.stdout\<close> is bound to, the files that are open, and the next file to be handed out.
  The body of the \<^verbatim>\<open>async with\<close> block is any change of that state, ending normally
  (\<open>None\<close>) or with an exception. \<^verbatim>\<open>open\<close> may fail, before anything is changed.
\<close>

datatype stream = Console | FileStream nat

record io =
  sys_stdout :: stream
  open_files :: "nat set"
  next_fd :: nat

definition silent :: "bool \<Rightarrow> (io \<Rightarrow> exn option \<times> io) \<Rightarrow> io \<Rightarrow> exn option \<times> io" where
  "silent can_open body w =
     (if \<not> can_open then (Some (External ''OSError''), w)
      else
        (let devnull = next_fd w;
             w1 = w\<lparr>open_files := insert devnull (open_files w), next_fd := Suc devnull\<rparr>;
             old_stdout = sys_stdout w1;
             w2 = w1\<lparr>sys_stdout := FileStream devnull\<rparr>
         in case body w2 of
              (r, w3) \<Rightarrow>
                (let w4 = w3\<lparr>sys_stdout := old_stdout\<rparr>;
                     w5 = w4\<lparr>open_files := open_files w4 - {devnull}\<rparr>
                 in (r, w5))))"

section \<open>Notions used to state the properties\<close>

text \<open>
  A document holds a restart record when its \<^verbatim>\<open>"restart"\<close> field is a list that starts
  with a dictionary, as every document written by \<^verbatim>\<open>cmd_restart\<close> does.
\<close>

definition has_restart_record :: "doc \<Rightarrow> bool" where
  "has_restart_record data =
     (case dict_get data ''restart'' of VList (VDoc r # rest) \<Rightarrow> True | _ \<Rightarrow> False)"

text \<open>The events that fetch or edit a message.\<close>

fun is_chat_call :: "event \<Rightarrow> bool" where
  "is_chat_call (GetMessages c m) = True"
| "is_chat_call (BotRespond m t) = True"
| "is_chat_call _ = False"

text \<open>
  Successive boots: each new process loads the module on the store the previous one
  left and runs \<^verbatim>\<open>on_start\<close>. The results of the boots and the last store are returned.
\<close>

fun boots :: "env list \<Rightarrow> (int \<rightharpoonup> doc) \<Rightarrow> (exn + unit) list \<times> (int \<rightharpoonup> doc)" where
  "boots [] store = ([], store)"
| "boots (e # es) store =
     (case on_start e (on_load store) of
        (r, s) \<Rightarrow> (case boots es (db s) of (rs, store') \<Rightarrow> (r # rs, store')))"

text \<open>
  The automatic reinstall succeeds: a virtualenv prefix is found, the progress answer is
  sent, and \<^verbatim>\<open>pip install\<close> runs and returns 0.
\<close>

definition reinstall_ok :: "update_env \<Rightarrow> env \<Rightarrow> repo \<Rightarrow> bool" where
  "reinstall_ok u e r =
     (truthy (get_venv_path u) \<and>
      (case ctx_respond e ''Updating dependencies...'' of
         Inl x \<Rightarrow> False
       | Inr m \<Rightarrow>
           (case pip_install u (the (get_venv_path u)) (working_tree_dir r) of
              Inl x \<Rightarrow> False
            | Inr (out, ret) \<Rightarrow> ret = 0)))"

section \<open>Example inputs\<close>

text \<open>
  Concrete collaborators on which the theorems below are instantiated: a chat client that
  answers every call, one that fails to fetch, a store holding one document without
  records, a process launched with an interpreter option, a traceback that leaves
  the snippet for a module of the bot, and one that ends in the parser.
\<close>

definition ex_msg :: message where
  "ex_msg = \<lparr>chat_id = 100, message_id = 5\<rparr>"

definition ex_env :: env where
  "ex_env = \<lparr>uid = 7, usec = 2000000, format_duration_us = (\<lambda>d. ''a while''),
              ctx_respond = (\<lambda>t. Inr ex_msg),
              get_messages = (\<lambda>c m. Inr ex_msg),
              bot_respond = (\<lambda>m t. None)\<rparr>"

definition ex_env_offline :: env where
  "ex_env_offline = ex_env\<lparr>get_messages := (\<lambda>c m. Inl (External ''MessageIdInvalid''))\<rparr>"

definition ex_doc :: doc where
  "ex_doc = [(''restart'', VList [VDoc [(''status_chat_id'', VInt 100),
                                        (''status_message_id'', VInt 5),
                                        (''time'', VInt 1000000),
                                        (''reason'', VStr ''manual'')]])]"

definition ex_store :: "int \<rightharpoonup> doc" where
  "ex_store = [7 \<mapsto> ex_doc]"

definition ex_empty_store :: "int \<rightharpoonup> doc" where
  "ex_empty_store = [7 \<mapsto> [(''restart'', VList [])]]"

definition ex_proc :: process where
  "ex_proc = \<lparr>executable = ''/usr/bin/python3'',
               orig_argv = [''/usr/bin/python3'', ''-O'', ''-m'', ''caligo'']\<rparr>"

definition ex_frame_eval :: frame where
  "ex_frame_eval = \<lparr>filename = ''/app/caligo/modules/system.py'', lineno = 182, funcname = ''_eval''\<rparr>"

definition ex_frame_meval :: frame where
  "ex_frame_meval = \<lparr>filename = ''/venv/site-packages/meval/__init__.py'', lineno = 40,
                      funcname = ''meval''\<rparr>"

definition ex_frame_snip :: frame where
  "ex_frame_snip = \<lparr>filename = ''<string>'', lineno = 1, funcname = ''tmp''\<rparr>"

definition ex_frame_util :: frame where
  "ex_frame_util = \<lparr>filename = ''/app/caligo/util/git.py'', lineno = 12, funcname = ''get_repo''\<rparr>"

definition ex_raised :: raised where
  "ex_raised = \<lparr>exc_type = ''ValueError'', exc_msg = ''bad'', is_exception = True,
                 tb = [ex_frame_eval, ex_frame_meval, ex_frame_snip, ex_frame_util]\<rparr>"

definition ex_internal :: raised where
  "ex_internal = \<lparr>exc_type = ''RuntimeError'', exc_msg = ''boom'', is_exception = True,
                   tb = [ex_frame_eval, ex_frame_meval]\<rparr>"

definition ex_frame_ast :: frame where
  "ex_frame_ast = \<lparr>filename = ''/usr/lib/python3.11/ast.py'', lineno = 50, funcname = ''parse''\<rparr>"

definition ex_syntax_error :: raised where
  "ex_syntax_error = \<lparr>exc_type = ''SyntaxError'', exc_msg = ''invalid syntax'', is_exception = True,
                       tb = [ex_frame_eval, ex_frame_meval, ex_frame_ast]\<rparr>"

definition ex_format :: "raised \<Rightarrow> frame list \<Rightarrow> string" where
  "ex_format e fs = concat (map (\<lambda>f. filename f @ ''\<newline>'') fs) @ exc_type e"

definition ex_ctx :: cmd_context where
  "ex_ctx = \<lparr>ctx_cmd = [''x''], msg_text = ''.eval x''\<rparr>"

definition ex_eval_env :: "run \<Rightarrow> eval_env" where
  "ex_eval_env r = \<lparr>meval = (\<lambda>code. r), format_exception = ex_format,
                     eval_format_duration_us = (\<lambda>d. ''1 ms''), before = 0, after = 1000\<rparr>"

definition ex_update_env :: update_env where
  "ex_update_env = \<lparr>have_git = True,
                     get_repo = Some \<lparr>active_branch_name = ''master'', working_tree_dir = ''/app''\<rparr>,
                     repo_remote = (\<lambda>n. if n = ''origin'' then Some ''origin'' else None),
                     get_current_remote = Some ''origin'',
                     update_time = 1500000,
                     remote_pull = None,
                     commit_diff = [''caligo/main.py''],
                     get_venv_path = None,
                     pip_install = (\<lambda>prefix dir. Inr ('''', 0))\<rparr>"

definition ex_io :: io where
  "ex_io = \<lparr>sys_stdout = Console, open_files = {0, 1, 2}, next_fd = 3\<rparr>"

section \<open>Restart records across a process replacement\<close>

text \<open>
  On a store without a document for the bot, \<^verbatim>\<open>cmd_restart\<close> creates the document with
  the one record it built, flags the restart and asks the bot to stop.
\<close>

lemma cmd_restart_fresh:
  assumes "store (uid e) = None" and "ctx_respond e ''Restarting bot...'' = Inr m"
  shows "cmd_restart e rt reason (on_load store) =
    (Inr (), \<lparr>db = store(uid e \<mapsto> [(''restart'', VList [restart_record e m rt reason])]),
       restart_pending = True,
       trace = [CtxRespond ''Restarting bot...'', UpdateOne (uid e) (restart_record e m rt reason),
                SetStopManual, LogInfo ''Preparing to restart...'', BotStop]\<rparr>)"
  using assms
  by (simp add: cmd_restart_def on_load_def emit_def update_one_def add_to_set_def Let_def)

lemma cmd_restart_fresh_has_record:
  assumes "store (uid e) = None" and "ctx_respond e ''Restarting bot...'' = Inr m"
  shows "\<exists>data. db (snd (cmd_restart e rt reason (on_load store))) (uid e) = Some data
                \<and> has_restart_record data"
  using assms
  by (simp add: cmd_restart_fresh has_restart_record_def dict_get_def restart_record_def)

lemma map_of_doc_put: "map_of (doc_put k v d) k = Some v"
  by (induction d) auto

lemma add_to_set_keeps_record:
  assumes "has_restart_record data" and "add_to_set ''restart'' v (Some data) = Inr data'"
  shows "has_restart_record data'"
proof -
  obtain r rest where f: "map_of data ''restart'' = Some (VList (VDoc r # rest))"
    using assms(1)
    by (auto simp add: has_restart_record_def dict_get_def split: option.splits val.splits list.splits)
  then have "data' = doc_put ''restart''
      (VList (if v \<in> set (VDoc r # rest) then VDoc r # rest else (VDoc r # rest) @ [v])) data"
    using assms(2) by (simp add: add_to_set_def)
  then show ?thesis
    by (simp add: has_restart_record_def dict_get_def map_of_doc_put)
qed

text \<open>
  A further \<^verbatim>\<open>cmd_restart\<close> on a document that holds a record leaves a document that holds
  a record: the documents that \<^verbatim>\<open>cmd_restart\<close> builds up from an empty store all do.
\<close>

lemma cmd_restart_keeps_record:
  assumes "db s (uid e) = Some data" and "has_restart_record data"
    and "cmd_restart e rt reason s = (Inr (), s')"
  shows "\<exists>data'. db s' (uid e) = Some data' \<and> has_restart_record data'"
  using assms add_to_set_keeps_record [of data]
  by (auto simp add: cmd_restart_def update_one_def emit_def Let_def split: sum.splits)

lemma on_start_no_document:
  assumes "store (uid e) = None"
  shows "on_start e (on_load store) =
    (Inr (), \<lparr>db = store, restart_pending = False, trace = [FindOne (uid e)]\<rparr>)"
  using assms by (simp add: on_start_def on_load_def emit_def Let_def)

lemma on_start_deletes:
  assumes "store (uid e) = Some data" and "has_restart_record data"
  shows "db (snd (on_start e (on_load store))) = store(uid e := None)"
  using assms
  by (auto simp add: on_start_def on_load_def emit_def delete_one_def Let_def has_restart_record_def
      split: option.splits sum.splits val.splits if_splits list.splits)

lemma on_start_first_events:
  assumes "store (uid e) = Some data" and "has_restart_record data"
  shows "take 2 (trace (snd (on_start e (on_load store)))) = [FindOne (uid e), DeleteOne (uid e)]"
  using assms
  by (auto simp add: on_start_def on_load_def emit_def delete_one_def Let_def has_restart_record_def
      split: option.splits sum.splits val.splits if_splits list.splits)

lemma on_start_trace_order:
  "\<forall>ev \<in> set (takeWhile (\<lambda>ev. ev \<noteq> DeleteOne (uid e)) (trace (snd (on_start e (on_load store))))).
      \<not> is_chat_call ev"
  by (auto simp add: on_start_def on_load_def emit_def delete_one_def Let_def
      split: option.splits sum.splits val.splits if_splits)

text \<open>
  C1. A record written by \<^verbatim>\<open>cmd_restart\<close> on a store without a document, and consumed by
  \<^verbatim>\<open>on_start\<close> in the next process, gives this run of \<^verbatim>\<open>on_start\<close>: the document is
  found and deleted, and the message remembered in the record is fetched and answered
  with \<^verbatim>\<open>"Bot restarted in {duration}."\<close>, the duration counted from the time written.
  This holds for every reason written, \<^verbatim>\<open>"update"\<close> included: \<^verbatim>\<open>cmd_restart\<close> writes the
  reason under \<^verbatim>\<open>"reason"\<close>, \<^verbatim>\<open>on_start\<close> reads \<^verbatim>\<open>"restart_reason"\<close> and gets \<open>None\<close>, so
  the reason read is never the reason written and the report never says "updated".
\<close>

theorem restart_reason_lost:
  assumes "store (uid e) = None"
    and "ctx_respond e ''Restarting bot...'' = Inr m"
    and "uid e' = uid e"
    and "get_messages e' (VInt (chat_id m)) (VInt (message_id m)) = Inr sm"
  shows "trace (snd (on_start e' (on_load (db (snd (cmd_restart e rt reason (on_load store))))))) =
     [FindOne (uid e), DeleteOne (uid e),
      LogInfo (''Bot restarted in '' @ format_duration_us e'
         (usec e' - (case rt of None \<Rightarrow> usec e | Some t \<Rightarrow> if t = 0 then usec e else t))),
      GetMessages (VInt (chat_id m)) (VInt (message_id m)),
      BotRespond sm (''Bot restarted in '' @ format_duration_us e'
         (usec e' - (case rt of None \<Rightarrow> usec e | Some t \<Rightarrow> if t = 0 then usec e else t)) @ ''.'')]"
proof -
  have "db (snd (cmd_restart e rt reason (on_load store))) =
          store(uid e \<mapsto> [(''restart'', VList [restart_record e m rt reason])])"
    using assms(1,2) by (simp add: cmd_restart_fresh)
  then show ?thesis
    using assms(3,4)
    by (simp add: on_start_def on_load_def emit_def delete_one_def Let_def dict_get_def
        restart_record_def report_def split: option.splits)
qed

theorem restart_reason_lost_witness:
  "trace (snd (on_start ex_env (on_load (db (snd (cmd_restart (ex_env\<lparr>usec := 1000000\<rparr>)
       None ''update'' (on_load Map.empty)))))))
   = [FindOne 7, DeleteOne 7, LogInfo ''Bot restarted in a while'',
      GetMessages (VInt 100) (VInt 5), BotRespond ex_msg ''Bot restarted in a while.'']"
  using restart_reason_lost [where store = Map.empty and e = "ex_env\<lparr>usec := 1000000\<rparr>"
      and m = ex_msg and e' = ex_env and sm = ex_msg and rt = None and reason = "''update''"]
  by (simp add: ex_env_def ex_msg_def)

text \<open>
  C3. When the store holds a document for the bot with a restart record, \<^verbatim>\<open>on_start\<close>
  deletes the whole document before it fetches or edits any message: no fetch or edit
  comes before the deletion in the trace, whose first two events are the lookup and the
  deletion. Whatever the chat client then does (the collaborators are arbitrary, so its
  calls may raise), the store is left without the document, and a second \<^verbatim>\<open>on_start\<close> finds
  nothing: it returns after the lookup and changes nothing.
\<close>

theorem on_start_deletes_before_chat:
  assumes "store (uid e) = Some data" and "has_restart_record data" and "uid e' = uid e"
  shows "(\<forall>ev \<in> set (takeWhile (\<lambda>ev. ev \<noteq> DeleteOne (uid e))
                          (trace (snd (on_start e (on_load store))))). \<not> is_chat_call ev)
       \<and> take 2 (trace (snd (on_start e (on_load store)))) = [FindOne (uid e), DeleteOne (uid e)]
       \<and> db (snd (on_start e (on_load store))) = store(uid e := None)
       \<and> on_start e' (on_load (db (snd (on_start e (on_load store))))) =
           (Inr (), \<lparr>db = store(uid e := None), restart_pending = False,
                     trace = [FindOne (uid e)]\<rparr>)"
proof -
  have d: "db (snd (on_start e (on_load store))) = store(uid e := None)"
    using assms(1,2) by (rule on_start_deletes)
  have "(store(uid e := None)) (uid e') = None"
    using assms(3) by simp
  then have "on_start e' (on_load (store(uid e := None))) =
      (Inr (), \<lparr>db = store(uid e := None), restart_pending = False, trace = [FindOne (uid e')]\<rparr>)"
    by (rule on_start_no_document)
  then show ?thesis
    using d assms on_start_trace_order [of e store] on_start_first_events [of store e data]
    by simp
qed

theorem on_start_deletes_before_chat_witness:
  "ex_store (uid ex_env_offline) = Some ex_doc \<and> has_restart_record ex_doc
   \<and> fst (on_start ex_env_offline (on_load ex_store)) = Inl (External ''MessageIdInvalid'')
   \<and> take 2 (trace (snd (on_start ex_env_offline (on_load ex_store)))) = [FindOne 7, DeleteOne 7]
   \<and> db (snd (on_start ex_env_offline (on_load ex_store))) 7 = None
   \<and> on_start ex_env (on_load (db (snd (on_start ex_env_offline (on_load ex_store))))) =
       (Inr (), \<lparr>db = ex_store(7 := None), restart_pending = False, trace = [FindOne 7]\<rparr>)"
proof -
  have a: "ex_store (uid ex_env_offline) = Some ex_doc"
    by (simp add: ex_store_def ex_env_offline_def ex_env_def)
  have b: "has_restart_record ex_doc"
    by (simp add: has_restart_record_def ex_doc_def dict_get_def)
  have c: "uid ex_env = uid ex_env_offline"
    by (simp add: ex_env_offline_def)
  have f: "fst (on_start ex_env_offline (on_load ex_store)) = Inl (External ''MessageIdInvalid'')"
    by (simp add: on_start_def on_load_def emit_def delete_one_def Let_def dict_get_def
        ex_store_def ex_doc_def ex_env_offline_def ex_env_def)
  have u: "uid ex_env_offline = 7"
    by (simp add: ex_env_offline_def ex_env_def)
  show ?thesis
    using a b f on_start_deletes_before_chat [of ex_store ex_env_offline ex_doc ex_env, OF a b c]
    by (auto simp add: u)
qed

text \<open>
  C9. When the store holds a document for the bot whose \<^verbatim>\<open>"restart"\<close> field is absent or
  an empty list, \<^verbatim>\<open>on_start\<close> raises at \<^verbatim>\<open>data.get("restart")[0]\<close> (\<open>TypeError\<close> for the
  absent field, \<open>IndexError\<close> for the empty list) after the lookup and before any deletion:
  the store is unchanged. So every boot of a sequence of boots fails in the same way and
  the store is the same after all of them.
\<close>

theorem on_start_fails_without_record:
  assumes "store k = Some data"
    and "map_of data ''restart'' = None \<or> map_of data ''restart'' = Some (VList [])"
    and "\<forall>e \<in> set es. uid e = k"
  shows "(\<forall>e \<in> set es. on_start e (on_load store) =
            (Inl (if map_of data ''restart'' = None then TypeError else IndexError),
             \<lparr>db = store, restart_pending = False, trace = [FindOne k]\<rparr>))
         \<and> boots es store =
            (replicate (length es)
               (Inl (if map_of data ''restart'' = None then TypeError else IndexError)), store)"
proof -
  let ?r = "Inl (if map_of data ''restart'' = None then TypeError else IndexError) :: exn + unit"
  let ?s = "\<lparr>db = store, restart_pending = False, trace = [FindOne k]\<rparr>"
  have one: "on_start e (on_load store) = (?r, ?s)" if "uid e = k" for e
    using assms(1,2) that
    by (auto simp add: on_start_def on_load_def emit_def Let_def dict_get_def)
  have "boots es' store = (replicate (length es') ?r, store)" if "\<forall>e \<in> set es'. uid e = k" for es'
    using that by (induction es') (simp_all add: one)
  then show ?thesis
    using assms(3) one by simp
qed

theorem on_start_fails_without_record_witness:
  "on_start ex_env (on_load ex_empty_store) =
      (Inl IndexError, \<lparr>db = ex_empty_store, restart_pending = False, trace = [FindOne 7]\<rparr>)
   \<and> boots [ex_env, ex_env_offline, ex_env] ex_empty_store =
      ([Inl IndexError, Inl IndexError, Inl IndexError], ex_empty_store)"
proof -
  have a: "ex_empty_store 7 = Some [(''restart'', VList [])]"
    by (simp add: ex_empty_store_def)
  have b: "map_of [(''restart'', VList [])] ''restart'' = None
           \<or> map_of [(''restart'', VList [])] ''restart'' = Some (VList [])"
    by simp
  have c: "\<forall>e \<in> set [ex_env, ex_env_offline, ex_env]. uid e = 7"
    by (simp add: ex_env_offline_def ex_env_def)
  show ?thesis
    using a b c on_start_fails_without_record [of ex_empty_store 7 "[(''restart'', VList [])]"
        "[ex_env, ex_env_offline, ex_env]"]
    by simp
qed

section \<open>Re-execution at shutdown\<close>

text \<open>
  C2. With a restart pending and an \<^verbatim>\<open>execv\<close> that succeeds, \<^verbatim>\<open>on_stopped\<close> replaces the
  process by the same executable with the arguments \<^verbatim>\<open>(executable, "-m", "caligo")\<close>,
  whatever command line the process was launched with; with no restart pending it returns
  and changes nothing. A process launched as \<^verbatim>\<open>python3 -O -m caligo\<close> is thus replaced by
  one launched as \<^verbatim>\<open>python3 -m caligo\<close>: the arguments are not those of the launch.
\<close>

theorem on_stopped_fixed_argv:
  "fst (on_stopped (\<lambda>path argv. None) p (s\<lparr>restart_pending := True\<rparr>))
     = Replaced (executable p) [executable p, ''-m'', ''caligo'']
   \<and> fst (on_stopped (\<lambda>path argv. None) ex_proc (s\<lparr>restart_pending := True\<rparr>))
     = Replaced ''/usr/bin/python3'' [''/usr/bin/python3'', ''-m'', ''caligo'']
   \<and> orig_argv ex_proc = [''/usr/bin/python3'', ''-O'', ''-m'', ''caligo'']
   \<and> orig_argv ex_proc \<noteq> [''/usr/bin/python3'', ''-m'', ''caligo'']
   \<and> on_stopped execv p (s\<lparr>restart_pending := False\<rparr>) = (Returned, s\<lparr>restart_pending := False\<rparr>)"
  by (simp add: on_stopped_def ex_proc_def Let_def)

section \<open>The traceback shown for a failing snippet\<close>

lemma find_snip_none:
  "find_snip fs i = - 1 \<longleftrightarrow> (\<forall>f \<in> set fs. \<not> is_snip_frame f)"
  by (induction fs arbitrary: i) auto

lemma find_snip_index:
  "\<exists>f \<in> set fs. is_snip_frame f \<Longrightarrow>
     find_snip fs i = int i + int (length (takeWhile (\<lambda>f. \<not> is_snip_frame f) fs))"
proof (induction fs arbitrary: i)
  case Nil
  then show ?case by simp
next
  case (Cons a fs)
  show ?case
  proof (cases "is_snip_frame a")
    case True
    then show ?thesis by simp
  next
    case False
    with Cons.prems have "\<exists>f \<in> set fs. is_snip_frame f" by auto
    from Cons.IH [OF this, of "Suc i"] False show ?thesis by simp
  qed
qed

lemma stripped_tb_dropWhile:
  assumes "\<exists>f \<in> set t. is_snip_frame f"
  shows "stripped_tb t = dropWhile (\<lambda>f. \<not> is_snip_frame f) t"
proof -
  have "first_snip_idx t = int (length (takeWhile (\<lambda>f. \<not> is_snip_frame f) t))"
    using find_snip_index [OF assms, of 0] by (simp add: first_snip_idx_def)
  then show ?thesis
    by (simp add: stripped_tb_def dropWhile_eq_drop)
qed

lemma strip_final_newline_snoc:
  "strip_final_newline (s @ [c]) = (if c = CHR 0x0A then s else s @ [c])"
  by (simp add: strip_final_newline_def endswith_def)

lemma strip_final_newline_Nil: "strip_final_newline [] = []"
  by (simp add: strip_final_newline_def endswith_def)

lemma cmd_eval_returned:
  assumes "ctx_cmd ctx \<noteq> []" and "after_first_space (msg_text ctx) = Some code"
    and "outcome (meval ee code) = Inr res"
  shows "cmd_eval ee ctx =
     Reply (eval_report '''' code
              (strip_final_newline (final_buf (printed (meval ee code)) res))
              (eval_format_duration_us ee (after ee - before ee)))"
  using assms by (simp add: cmd_eval_def inner_eval_def Let_def)

lemma cmd_eval_built:
  assumes "ctx_cmd ctx \<noteq> []" and "after_first_space (msg_text ctx) = Some code"
    and "inner_eval (format_exception ee) (meval ee code) = Inr (prefix, result)"
  shows "cmd_eval ee ctx =
     Reply (eval_report prefix code
              (strip_final_newline (final_buf (printed (meval ee code)) result))
              (eval_format_duration_us ee (after ee - before ee)))"
  using assms by (simp add: cmd_eval_def Let_def)

lemma cmd_eval_snippet_error:
  assumes "ctx_cmd ctx \<noteq> []" and "after_first_space (msg_text ctx) = Some code"
    and "outcome (meval ee code) = Inl e" and "is_exception e"
    and "\<exists>f \<in> set (tb e). is_snip_frame f"
  shows "cmd_eval ee ctx =
     Reply (eval_report (warning_sign @ '' Error executing snippet\<newline>\<newline>'') code
              (strip_final_newline (final_buf (printed (meval ee code))
                  (PyStr (format_exception ee e (stripped_tb (tb e))))))
              (eval_format_duration_us ee (after ee - before ee)))"
  using assms by (auto simp add: cmd_eval_def inner_eval_def Let_def first_snip_idx_def find_snip_none)

lemma ex_tb_stripped: "stripped_tb (tb ex_raised) = [ex_frame_snip, ex_frame_util]"
  by (simp add: stripped_tb_def first_snip_idx_def ex_raised_def is_snip_frame_def endswith_def
      ex_frame_eval_def ex_frame_meval_def ex_frame_snip_def ex_frame_util_def)

lemma str_int_42: "str_int 42 = ''42''"
  by (simp add: str_int_def str_nat.simps)

lemma final_buf_written: "(final_buf buf res \<noteq> buf) = (buf = [] \<or> res \<noteq> PyNone)"
  by (simp add: final_buf_def print_to_def)

text \<open>
  C4, as the code has it. When the snippet raises an \<^verbatim>\<open>Exception\<close> whose traceback has a
  frame that passes the loop's test (file name \<^verbatim>\<open><string>\<close>, or ending in \<^verbatim>\<open>ast.py\<close>), the
  reply shows the traceback formatted from the frames \<^verbatim>\<open>tb[first_snip_idx:]\<close>: the
  traceback from its first such frame on. That first frame involves the snippet and no
  frame before it does; the frames before it are dropped and all frames after it are
  kept, whatever file they come from.
\<close>

theorem cmd_eval_traceback_suffix:
  assumes "ctx_cmd ctx \<noteq> []" and "after_first_space (msg_text ctx) = Some code"
    and "outcome (meval ee code) = Inl e" and "is_exception e"
    and "\<exists>f \<in> set (tb e). is_snip_frame f"
  shows "cmd_eval ee ctx =
     Reply (eval_report (warning_sign @ '' Error executing snippet\<newline>\<newline>'') code
              (strip_final_newline (final_buf (printed (meval ee code))
                  (PyStr (format_exception ee e (stripped_tb (tb e))))))
              (eval_format_duration_us ee (after ee - before ee)))
   \<and> stripped_tb (tb e) = dropWhile (\<lambda>f. \<not> is_snip_frame f) (tb e)
   \<and> tb e = takeWhile (\<lambda>f. \<not> is_snip_frame f) (tb e) @ stripped_tb (tb e)
   \<and> (\<forall>f \<in> set (takeWhile (\<lambda>f. \<not> is_snip_frame f) (tb e)). \<not> is_snip_frame f)
   \<and> stripped_tb (tb e) \<noteq> [] \<and> is_snip_frame (hd (stripped_tb (tb e)))"
proof -
  have d: "stripped_tb (tb e) = dropWhile (\<lambda>f. \<not> is_snip_frame f) (tb e)"
    using assms(5) by (rule stripped_tb_dropWhile)
  have n: "dropWhile (\<lambda>f. \<not> is_snip_frame f) (tb e) \<noteq> []"
    using assms(5) by simp
  have h: "is_snip_frame (hd (dropWhile (\<lambda>f. \<not> is_snip_frame f) (tb e)))"
    using n hd_dropWhile [of "\<lambda>f. \<not> is_snip_frame f" "tb e"] by simp
  have t: "\<forall>f \<in> set (takeWhile (\<lambda>f. \<not> is_snip_frame f) (tb e)). \<not> is_snip_frame f"
    by (auto dest: set_takeWhileD)
  show ?thesis
    using cmd_eval_snippet_error [OF assms] d n h t by simp
qed

theorem cmd_eval_traceback_suffix_witness:
  "(\<exists>f \<in> set (tb ex_raised). is_snip_frame f)
   \<and> stripped_tb (tb ex_raised) = dropWhile (\<lambda>f. \<not> is_snip_frame f) (tb ex_raised)
   \<and> tb ex_raised = takeWhile (\<lambda>f. \<not> is_snip_frame f) (tb ex_raised) @ stripped_tb (tb ex_raised)
   \<and> is_snip_frame (hd (stripped_tb (tb ex_raised)))"
proof -
  let ?ee = "ex_eval_env \<lparr>printed = [], outcome = Inl ex_raised\<rparr>"
  have a: "ctx_cmd ex_ctx \<noteq> []" and b: "after_first_space (msg_text ex_ctx) = Some ''x''"
    by (simp_all add: ex_ctx_def)
  have c: "outcome (meval ?ee ''x'') = Inl ex_raised"
    by (simp add: ex_eval_env_def)
  have d: "is_exception ex_raised"
    by (simp add: ex_raised_def)
  have "is_snip_frame ex_frame_snip"
    by (simp add: is_snip_frame_def ex_frame_snip_def)
  then have e: "\<exists>f \<in> set (tb ex_raised). is_snip_frame f"
    by (simp add: ex_raised_def)
  show ?thesis
    using e cmd_eval_traceback_suffix [of ex_ctx "''x''" ?ee ex_raised, OF a b c d e]
    by blast
qed

text \<open>
  C4, as stated, fails: a snippet that calls into a module of the bot, which raises, has
  the traceback \<^verbatim>\<open>system.py\<close>, \<^verbatim>\<open>meval\<close>, \<^verbatim>\<open><string>\<close>, \<^verbatim>\<open>caligo/util/git.py\<close>. The frames
  shown are the last two, and the reply names the bot's own file.
\<close>

theorem cmd_eval_traceback_counterexample:
  "cmd_eval (ex_eval_env \<lparr>printed = [], outcome = Inl ex_raised\<rparr>) ex_ctx =
     Reply (eval_report (warning_sign @ '' Error executing snippet\<newline>\<newline>'') ''x''
              ''<string>\<newline>/app/caligo/util/git.py\<newline>ValueError'' ''1 ms'')
   \<and> stripped_tb (tb ex_raised) = [ex_frame_snip, ex_frame_util]
   \<and> filename ex_frame_util = ''/app/caligo/util/git.py''
   \<and> \<not> is_snip_frame ex_frame_util"
  apply (simp add: ex_tb_stripped)
  apply (simp add: cmd_eval_def ex_eval_env_def ex_ctx_def inner_eval_def Let_def final_buf_def
      print_to_def strip_final_newline_def endswith_def ex_format_def ex_tb_stripped)
  apply (simp add: ex_raised_def first_snip_idx_def is_snip_frame_def endswith_def
      ex_frame_eval_def ex_frame_meval_def ex_frame_snip_def ex_frame_util_def)
  done

text \<open>
  C7, as the code has it. An exception raised while the snippet ran, none of whose
  traceback frames has the file name \<^verbatim>\<open><string>\<close> or a file name ending in \<^verbatim>\<open>ast.py\<close>,
  leaves \<^verbatim>\<open>cmd_eval\<close> as it is: the same exception is raised again and no reply is built.
\<close>

theorem cmd_eval_reraises:
  assumes "ctx_cmd ctx \<noteq> []" and "after_first_space (msg_text ctx) = Some code"
    and "outcome (meval ee code) = Inl e"
    and "\<forall>f \<in> set (tb e). filename f \<noteq> ''<string>'' \<and> \<not> endswith (filename f) ''ast.py''"
  shows "cmd_eval ee ctx = Reraised e"
proof -
  have "\<forall>f \<in> set (tb e). \<not> is_snip_frame f"
    using assms(4) by (simp add: is_snip_frame_def)
  then have "first_snip_idx (tb e) = - 1"
    by (simp add: first_snip_idx_def find_snip_none)
  then have "inner_eval (format_exception ee) (meval ee code) = Inl e"
    using assms(3) by (simp add: inner_eval_def)
  then show ?thesis
    using assms(1,2) by (simp add: cmd_eval_def Let_def)
qed

theorem cmd_eval_reraises_witness:
  "cmd_eval (ex_eval_env \<lparr>printed = ''partial'', outcome = Inl ex_internal\<rparr>) ex_ctx
     = Reraised ex_internal"
proof -
  let ?ee = "ex_eval_env \<lparr>printed = ''partial'', outcome = Inl ex_internal\<rparr>"
  have a: "ctx_cmd ex_ctx \<noteq> []" and b: "after_first_space (msg_text ex_ctx) = Some ''x''"
    by (simp_all add: ex_ctx_def)
  have c: "outcome (meval ?ee ''x'') = Inl ex_internal"
    by (simp add: ex_eval_env_def)
  have d: "\<forall>f \<in> set (tb ex_internal). filename f \<noteq> ''<string>'' \<and> \<not> endswith (filename f) ''ast.py''"
    by (simp add: ex_internal_def ex_frame_eval_def ex_frame_meval_def endswith_def)
  show ?thesis
    using cmd_eval_reraises [of ex_ctx "''x''" ?ee ex_internal, OF a b c d]
    by simp
qed

text \<open>
  C7, as stated, fails: the loop's test also accepts a file name ending in \<^verbatim>\<open>ast.py\<close>. A
  snippet that does not parse raises in the parser, with the traceback \<^verbatim>\<open>system.py\<close>,
  \<^verbatim>\<open>meval\<close>, \<^verbatim>\<open>ast.py\<close>: no frame has the file name \<^verbatim>\<open><string>\<close>, and the exception is
  formatted into a reply, not raised again.
\<close>

theorem cmd_eval_reraises_counterexample:
  "tb ex_syntax_error = [ex_frame_eval, ex_frame_meval, ex_frame_ast]
   \<and> filename ex_frame_eval \<noteq> ''<string>'' \<and> filename ex_frame_meval \<noteq> ''<string>''
   \<and> filename ex_frame_ast \<noteq> ''<string>''
   \<and> cmd_eval (ex_eval_env \<lparr>printed = [], outcome = Inl ex_syntax_error\<rparr>) ex_ctx =
       Reply (warning_sign @ '' Error executing snippet\<newline>\<newline>**In:**\<newline>```x```\<newline>\<newline>**Out:**\<newline>```/usr/lib/python3.11/ast.py\<newline>SyntaxError```\<newline>\<newline>Time: 1 ms'')
   \<and> cmd_eval (ex_eval_env \<lparr>printed = [], outcome = Inl ex_syntax_error\<rparr>) ex_ctx
       \<noteq> Reraised ex_syntax_error"
proof -
  have s: "stripped_tb (tb ex_syntax_error) = [ex_frame_ast]"
    and i: "first_snip_idx (tb ex_syntax_error) = 2"
    by (simp_all add: stripped_tb_def first_snip_idx_def ex_syntax_error_def is_snip_frame_def
        endswith_def ex_frame_eval_def ex_frame_meval_def ex_frame_ast_def)
  have r: "cmd_eval (ex_eval_env \<lparr>printed = [], outcome = Inl ex_syntax_error\<rparr>) ex_ctx =
       Reply (warning_sign @ '' Error executing snippet\<newline>\<newline>**In:**\<newline>```x```\<newline>\<newline>**Out:**\<newline>```/usr/lib/python3.11/ast.py\<newline>SyntaxError```\<newline>\<newline>Time: 1 ms'')"
    by (simp add: cmd_eval_def ex_eval_env_def ex_ctx_def inner_eval_def Let_def final_buf_def
        print_to_def strip_final_newline_def endswith_def ex_format_def eval_report_def s i)
       (simp add: ex_syntax_error_def ex_frame_ast_def)
  show ?thesis
    using r
    by (simp add: ex_syntax_error_def ex_frame_eval_def ex_frame_meval_def ex_frame_ast_def)
qed

section \<open>The output shown for a snippet\<close>

text \<open>
  C5, as the code has it. After the snippet has returned, the result is printed into the
  buffer exactly when the buffer is empty or the result is not \<open>None\<close>; when the buffer
  has output and the result is \<open>None\<close>, nothing is added. The reply shows the buffer so
  obtained, less one final newline.
\<close>

theorem cmd_eval_writes_result:
  assumes "ctx_cmd ctx \<noteq> []" and "after_first_space (msg_text ctx) = Some code"
    and "outcome (meval ee code) = Inr res"
  shows "cmd_eval ee ctx =
     Reply (eval_report [] code
              (strip_final_newline
                 (if printed (meval ee code) = [] \<or> res \<noteq> PyNone
                  then printed (meval ee code) @ py_str res @ ''\<newline>''
                  else printed (meval ee code)))
              (eval_format_duration_us ee (after ee - before ee)))
   \<and> (final_buf buf res \<noteq> buf) = (buf = [] \<or> res \<noteq> PyNone)"
  using cmd_eval_returned [OF assms] final_buf_written [of buf res]
  by (simp add: final_buf_def print_to_def)

theorem cmd_eval_writes_result_witness:
  "cmd_eval (ex_eval_env \<lparr>printed = ''hi\<newline>'', outcome = Inr PyNone\<rparr>) ex_ctx =
       Reply (eval_report [] ''x'' ''hi'' ''1 ms'')
   \<and> (final_buf ''hi\<newline>'' PyNone \<noteq> ''hi\<newline>'') = (''hi\<newline>'' = [] \<or> PyNone \<noteq> PyNone)"
proof -
  let ?ee = "ex_eval_env \<lparr>printed = ''hi\<newline>'', outcome = Inr PyNone\<rparr>"
  have a: "ctx_cmd ex_ctx \<noteq> []" and b: "after_first_space (msg_text ex_ctx) = Some ''x''"
    by (simp_all add: ex_ctx_def)
  have c: "outcome (meval ?ee ''x'') = Inr PyNone"
    by (simp add: ex_eval_env_def)
  show ?thesis
    using cmd_eval_writes_result [of ex_ctx "''x''" ?ee PyNone "''hi\<newline>''", OF a b c]
    by (simp add: ex_eval_env_def strip_final_newline_def endswith_def)
qed

text \<open>
  C5, as stated, fails: with \<^verbatim>\<open>hi\<close> printed and the result 42, the buffer is not empty and
  the result is written all the same, and with nothing printed and the result \<open>None\<close>,
  \<^verbatim>\<open>None\<close> is written.
\<close>

theorem cmd_eval_result_written_counterexample:
  "final_buf ''hi\<newline>'' (PyInt 42) = ''hi\<newline>42\<newline>''
   \<and> final_buf [] PyNone = ''None\<newline>''
   \<and> cmd_eval (ex_eval_env \<lparr>printed = ''hi\<newline>'', outcome = Inr (PyInt 42)\<rparr>) ex_ctx =
       Reply (eval_report [] ''x'' ''hi\<newline>42'' ''1 ms'')"
  by (simp add: cmd_eval_def ex_eval_env_def ex_ctx_def inner_eval_def Let_def final_buf_def
      print_to_def strip_final_newline_def endswith_def str_int_42)

text \<open>
  C6. Whenever \<^verbatim>\<open>cmd_eval\<close> builds a report, its output part is the final buffer less one
  final newline, and only one: a buffer ending in a newline is shown without that
  character, a buffer ending in any other character is shown whole, and a buffer ending
  in two newlines is shown with one. A snippet that prints \<^verbatim>\<open>hello\<close> and returns \<open>None\<close>
  is reported with the output \<^verbatim>\<open>hello\<close>; one that prints nothing and returns 42 is
  reported with the output \<^verbatim>\<open>42\<close>.
\<close>

theorem cmd_eval_strips_one_newline:
  assumes "ctx_cmd ctx \<noteq> []" and "after_first_space (msg_text ctx) = Some code"
    and "inner_eval (format_exception ee) (meval ee code) = Inr (prefix, result)"
  shows "cmd_eval ee ctx =
           Reply (eval_report prefix code
                    (strip_final_newline (final_buf (printed (meval ee code)) result))
                    (eval_format_duration_us ee (after ee - before ee)))
   \<and> strip_final_newline [] = []
   \<and> strip_final_newline (s @ [c]) = (if c = CHR 0x0A then s else s @ [c])
   \<and> (final_buf (printed (meval ee code)) result = s @ [c]
       \<longrightarrow> cmd_eval ee ctx =
             Reply (prefix @ ''**In:**\<newline>```'' @ code @ ''```\<newline>\<newline>**Out:**\<newline>```''
                      @ (if c = CHR 0x0A then s else s @ [c])
                      @ ''```\<newline>\<newline>Time: '' @ eval_format_duration_us ee (after ee - before ee)))
   \<and> (final_buf (printed (meval ee code)) result = s @ ''\<newline>\<newline>''
       \<longrightarrow> cmd_eval ee ctx =
             Reply (prefix @ ''**In:**\<newline>```'' @ code @ ''```\<newline>\<newline>**Out:**\<newline>```''
                      @ s @ ''\<newline>''
                      @ ''```\<newline>\<newline>Time: '' @ eval_format_duration_us ee (after ee - before ee)))
   \<and> (meval ee code = \<lparr>printed = print_to ''hello'' [], outcome = Inr PyNone\<rparr>
       \<longrightarrow> cmd_eval ee ctx =
             Reply (''**In:**\<newline>```'' @ code @ ''```\<newline>\<newline>**Out:**\<newline>```hello```\<newline>\<newline>Time: ''
                      @ eval_format_duration_us ee (after ee - before ee)))
   \<and> (meval ee code = \<lparr>printed = [], outcome = Inr (PyInt 42)\<rparr>
       \<longrightarrow> cmd_eval ee ctx =
             Reply (''**In:**\<newline>```'' @ code @ ''```\<newline>\<newline>**Out:**\<newline>```42```\<newline>\<newline>Time: ''
                      @ eval_format_duration_us ee (after ee - before ee)))"
proof -
  let ?d = "eval_format_duration_us ee (after ee - before ee)"
  let ?b = "final_buf (printed (meval ee code)) result"
  have built: "cmd_eval ee ctx = Reply (eval_report prefix code (strip_final_newline ?b) ?d)"
    using assms by (rule cmd_eval_built)
  have one: "cmd_eval ee ctx =
      Reply (prefix @ ''**In:**\<newline>```'' @ code @ ''```\<newline>\<newline>**Out:**\<newline>```''
               @ (if c = CHR 0x0A then s else s @ [c]) @ ''```\<newline>\<newline>Time: '' @ ?d)"
    if "?b = s @ [c]"
    using built that by (simp add: strip_final_newline_snoc eval_report_def)
  have two: "cmd_eval ee ctx =
      Reply (prefix @ ''**In:**\<newline>```'' @ code @ ''```\<newline>\<newline>**Out:**\<newline>```''
               @ s @ ''\<newline>'' @ ''```\<newline>\<newline>Time: '' @ ?d)"
    if "?b = s @ ''\<newline>\<newline>''"
    using built that strip_final_newline_snoc [of "s @ ''\<newline>''" "CHR 0x0A"]
    by (simp add: eval_report_def)
  have hello: "cmd_eval ee ctx =
      Reply (''**In:**\<newline>```'' @ code @ ''```\<newline>\<newline>**Out:**\<newline>```hello```\<newline>\<newline>Time: '' @ ?d)"
    if "meval ee code = \<lparr>printed = print_to ''hello'' [], outcome = Inr PyNone\<rparr>"
  proof -
    have "prefix = [] \<and> result = PyNone"
      using assms(3) that by (simp add: inner_eval_def)
    then show ?thesis
      using built that
      by (simp add: final_buf_def print_to_def strip_final_newline_def endswith_def eval_report_def)
  qed
  have num: "cmd_eval ee ctx =
      Reply (''**In:**\<newline>```'' @ code @ ''```\<newline>\<newline>**Out:**\<newline>```42```\<newline>\<newline>Time: '' @ ?d)"
    if "meval ee code = \<lparr>printed = [], outcome = Inr (PyInt 42)\<rparr>"
  proof -
    have "prefix = [] \<and> result = PyInt 42"
      using assms(3) that by (simp add: inner_eval_def)
    then show ?thesis
      using built that
      by (simp add: final_buf_def print_to_def strip_final_newline_def endswith_def eval_report_def
          str_int_42)
  qed
  show ?thesis
    using built one two hello num strip_final_newline_Nil strip_final_newline_snoc [of s c]
    by blast
qed

theorem cmd_eval_strips_one_newline_witness:
  "cmd_eval (ex_eval_env \<lparr>printed = print_to ''hello'' [], outcome = Inr PyNone\<rparr>) ex_ctx =
       Reply ''**In:**\<newline>```x```\<newline>\<newline>**Out:**\<newline>```hello```\<newline>\<newline>Time: 1 ms''
   \<and> cmd_eval (ex_eval_env \<lparr>printed = [], outcome = Inr (PyInt 42)\<rparr>) ex_ctx =
       Reply ''**In:**\<newline>```x```\<newline>\<newline>**Out:**\<newline>```42```\<newline>\<newline>Time: 1 ms''
   \<and> cmd_eval (ex_eval_env \<lparr>printed = ''out\<newline>\<newline>'', outcome = Inr PyNone\<rparr>) ex_ctx =
       Reply ''**In:**\<newline>```x```\<newline>\<newline>**Out:**\<newline>```out\<newline>```\<newline>\<newline>Time: 1 ms''"
proof -
  let ?h = "ex_eval_env \<lparr>printed = print_to ''hello'' [], outcome = Inr PyNone\<rparr>"
  let ?n = "ex_eval_env \<lparr>printed = [], outcome = Inr (PyInt 42)\<rparr>"
  let ?o = "ex_eval_env \<lparr>printed = ''out\<newline>\<newline>'', outcome = Inr PyNone\<rparr>"
  have a: "ctx_cmd ex_ctx \<noteq> []" and b: "after_first_space (msg_text ex_ctx) = Some ''x''"
    by (simp_all add: ex_ctx_def)
  have h: "inner_eval (format_exception ?h) (meval ?h ''x'') = Inr ([], PyNone)"
    and n: "inner_eval (format_exception ?n) (meval ?n ''x'') = Inr ([], PyInt 42)"
    and o: "inner_eval (format_exception ?o) (meval ?o ''x'') = Inr ([], PyNone)"
    by (simp_all add: ex_eval_env_def inner_eval_def)
  have fo: "final_buf (printed (meval ?o ''x'')) PyNone = ''out'' @ ''\<newline>\<newline>''"
    by (simp add: ex_eval_env_def final_buf_def)
  have mh: "meval ?h ''x'' = \<lparr>printed = print_to ''hello'' [], outcome = Inr PyNone\<rparr>"
    and mn: "meval ?n ''x'' = \<lparr>printed = [], outcome = Inr (PyInt 42)\<rparr>"
    by (simp_all add: ex_eval_env_def)
  have d: "eval_format_duration_us (ex_eval_env r) (after (ex_eval_env r) - before (ex_eval_env r))
             = ''1 ms''" for r
    by (simp add: ex_eval_env_def)
  from cmd_eval_strips_one_newline [OF a b h, of "''out''" "CHR 0x0A"] mh
  have 1: "cmd_eval ?h ex_ctx =
      Reply ''**In:**\<newline>```x```\<newline>\<newline>**Out:**\<newline>```hello```\<newline>\<newline>Time: 1 ms''"
    by (auto simp add: d)
  from cmd_eval_strips_one_newline [OF a b n, of "''out''" "CHR 0x0A"] mn
  have 2: "cmd_eval ?n ex_ctx =
      Reply ''**In:**\<newline>```x```\<newline>\<newline>**Out:**\<newline>```42```\<newline>\<newline>Time: 1 ms''"
    by (auto simp add: d)
  from cmd_eval_strips_one_newline [OF a b o, of "''out''" "CHR 0x0A"] fo
  have 3: "cmd_eval ?o ex_ctx =
      Reply ''**In:**\<newline>```x```\<newline>\<newline>**Out:**\<newline>```out\<newline>```\<newline>\<newline>Time: 1 ms''"
    by (auto simp add: d)
  show ?thesis
    using 1 2 3 by simp
qed

section \<open>When the update restarts the bot\<close>

lemma restart_calls_emit:
  "restart_calls (trace (emit ev s)) =
     restart_calls (trace s) + (if ev = CtxRespond ''Restarting bot...'' then 1 else 0)"
  by (simp add: restart_calls_def emit_def)

lemma cmd_restart_calls:
  "restart_calls (trace (snd (cmd_restart e rt reason s))) = restart_calls (trace s) + 1"
  by (auto simp add: cmd_restart_def update_one_def Let_def restart_calls_def emit_def
      split: sum.splits)

lemma restart_after_update_calls:
  "restart_calls (trace (snd (restart_after_update u e s))) = restart_calls (trace s) + 1"
  using cmd_restart_calls [of e "Some (update_time u)" "''update''" s]
  by (cases "cmd_restart e (Some (update_time u)) ''update'' s")
     (auto simp add: restart_after_update_def split: sum.splits)

lemma restart_after_update_state:
  "snd (restart_after_update u e s) = snd (cmd_restart e (Some (update_time u)) ''update'' s)"
  by (cases "cmd_restart e (Some (update_time u)) ''update'' s")
     (auto simp add: restart_after_update_def split: sum.splits)

text \<open>
  Before the pull succeeds the command ends with a reply or an exception, and
  \<^verbatim>\<open>cmd_restart\<close> is not called.
\<close>

lemma cmd_update_stops_early:
  assumes "\<not> have_git u \<or> get_repo u = None
           \<or> (\<exists>r reply. get_repo u = Some r \<and> resolve_remote u r rn = Inl reply)
           \<or> (\<exists>r remote x. get_repo u = Some r \<and> resolve_remote u r rn = Inr remote
                \<and> (ctx_respond e (''Pulling changes from `'' @ remote @ ''`...'') = Inl x
                    \<or> remote_pull u = Some x))"
  shows "restart_calls (trace (snd (cmd_update u e rn s))) = restart_calls (trace s)"
  using assms
  by (auto simp add: cmd_update_def Let_def restart_calls_emit split: sum.splits option.splits)

text \<open>
  C8. Once the pull has succeeded, \<^verbatim>\<open>cmd_update\<close> calls \<^verbatim>\<open>cmd_restart\<close> once when the diff
  is not empty and either has no change of \<^verbatim>\<open>poetry.lock\<close> or the reinstall in the
  virtualenv succeeds, and not at all otherwise. The call is
  \<^verbatim>\<open>cmd_restart(ctx, restart_time=update_time, reason="update")\<close>, made in a state whose
  store and pending flag are still those of the start. An empty diff gives the reply
  \<^verbatim>\<open>"No updates found."\<close>, and a changed lock file without a virtualenv prefix gives the
  reply that asks for a manual update; in both cases \<^verbatim>\<open>cmd_restart\<close> is not called.
\<close>

theorem cmd_update_restart_calls:
  assumes "have_git u" and "get_repo u = Some r" and "resolve_remote u r rn = Inr remote"
    and "ctx_respond e (''Pulling changes from `'' @ remote @ ''`...'') = Inr m"
    and "remote_pull u = None"
  shows "restart_calls (trace (snd (cmd_update u e rn s))) =
           restart_calls (trace s) +
           (if commit_diff u \<noteq> [] \<and> (''poetry.lock'' \<notin> set (commit_diff u) \<or> reinstall_ok u e r)
            then 1 else 0)
       \<and> (commit_diff u \<noteq> [] \<and> (''poetry.lock'' \<notin> set (commit_diff u) \<or> reinstall_ok u e r)
            \<longrightarrow> (\<exists>s'. db s' = db s \<and> restart_pending s' = restart_pending s
                      \<and> restart_calls (trace s') = restart_calls (trace s)
                      \<and> snd (cmd_update u e rn s)
                          = snd (cmd_restart e (Some (update_time u)) ''update'' s')))
       \<and> (commit_diff u = [] \<longrightarrow> fst (cmd_update u e rn s) = Inr (Some ''No updates found.''))
       \<and> (''poetry.lock'' \<in> set (commit_diff u) \<and> \<not> truthy (get_venv_path u)
            \<longrightarrow> fst (cmd_update u e rn s) = Inr (Some manual_update_reply))"
proof -
  let ?s1 = "emit (CtxRespond (''Pulling changes from `'' @ remote @ ''`...'')) s"
  let ?s2 = "emit (CtxRespond ''Updating dependencies...'') ?s1"
  have c1: "restart_calls (trace ?s1) = restart_calls (trace s)"
    by (simp add: restart_calls_emit)
  have c2: "restart_calls (trace ?s2) = restart_calls (trace s)"
    by (simp add: restart_calls_emit)
  have d1: "db ?s1 = db s \<and> restart_pending ?s1 = restart_pending s"
    and d2: "db ?s2 = db s \<and> restart_pending ?s2 = restart_pending s"
    by (simp_all add: emit_def)
  consider (empty) "commit_diff u = []"
    | (plain) "commit_diff u \<noteq> []" "''poetry.lock'' \<notin> set (commit_diff u)"
    | (manual) "commit_diff u \<noteq> []" "''poetry.lock'' \<in> set (commit_diff u)"
        "\<not> truthy (get_venv_path u)"
    | (auto_ok) "commit_diff u \<noteq> []" "''poetry.lock'' \<in> set (commit_diff u)" "reinstall_ok u e r"
    | (auto_bad) "commit_diff u \<noteq> []" "''poetry.lock'' \<in> set (commit_diff u)"
        "truthy (get_venv_path u)" "\<not> reinstall_ok u e r"
    by (auto simp add: reinstall_ok_def)
  then show ?thesis
  proof cases
    case empty
    then have "cmd_update u e rn s = (Inr (Some ''No updates found.''), ?s1)"
      using assms by (simp add: cmd_update_def Let_def)
    then show ?thesis using empty c1 by simp
  next
    case plain
    then have "cmd_update u e rn s = restart_after_update u e ?s1"
      using assms by (simp add: cmd_update_def Let_def)
    then show ?thesis
      using plain c1 d1 restart_after_update_calls [of u e ?s1] restart_after_update_state [of u e ?s1]
      by auto
  next
    case manual
    then have "cmd_update u e rn s = (Inr (Some manual_update_reply), ?s1)"
      using assms by (simp add: cmd_update_def Let_def)
    then show ?thesis using manual c1 by (simp add: reinstall_ok_def)
  next
    case auto_ok
    then have "cmd_update u e rn s = restart_after_update u e ?s2"
      using assms by (auto simp add: cmd_update_def Let_def reinstall_ok_def split: sum.splits)
    then show ?thesis
      using auto_ok c2 d2 restart_after_update_calls [of u e ?s2] restart_after_update_state [of u e ?s2]
      by (auto simp add: reinstall_ok_def)
  next
    case auto_bad
    then have "snd (cmd_update u e rn s) = ?s2"
      using assms by (auto simp add: cmd_update_def Let_def reinstall_ok_def split: sum.splits)
    then show ?thesis using auto_bad c2 by simp
  qed
qed

theorem cmd_update_restart_calls_witness:
  "restart_calls (trace (snd (cmd_update ex_update_env ex_env None (on_load Map.empty)))) = 1
   \<and> fst (cmd_update (ex_update_env\<lparr>commit_diff := []\<rparr>) ex_env None (on_load Map.empty))
       = Inr (Some ''No updates found.'')
   \<and> restart_calls (trace (snd (cmd_update (ex_update_env\<lparr>commit_diff := []\<rparr>) ex_env None
       (on_load Map.empty)))) = 0
   \<and> fst (cmd_update (ex_update_env\<lparr>commit_diff := [''poetry.lock'']\<rparr>) ex_env None
       (on_load Map.empty)) = Inr (Some manual_update_reply)
   \<and> restart_calls (trace (snd (cmd_update (ex_update_env\<lparr>commit_diff := [''poetry.lock'']\<rparr>)
       ex_env None (on_load Map.empty)))) = 0"
proof -
  let ?r = "\<lparr>active_branch_name = ''master'', working_tree_dir = ''/app''\<rparr>"
  have g: "have_git (ex_update_env\<lparr>commit_diff := d\<rparr>)"
    and r: "get_repo (ex_update_env\<lparr>commit_diff := d\<rparr>) = Some ?r"
    and m: "resolve_remote (ex_update_env\<lparr>commit_diff := d\<rparr>) ?r None = Inr ''origin''"
    and p: "remote_pull (ex_update_env\<lparr>commit_diff := d\<rparr>) = None" for d
    by (simp_all add: ex_update_env_def resolve_remote_def)
  have c: "ctx_respond ex_env (''Pulling changes from `'' @ ''origin'' @ ''`...'') = Inr ex_msg"
    by (simp add: ex_env_def)
  have t0: "restart_calls (trace (on_load Map.empty)) = 0"
    by (simp add: restart_calls_def on_load_def)
  have same: "ex_update_env\<lparr>commit_diff := [''caligo/main.py'']\<rparr> = ex_update_env"
    by (simp add: ex_update_env_def)
  have v: "\<not> truthy (get_venv_path (ex_update_env\<lparr>commit_diff := d\<rparr>))" for d
    by (simp add: ex_update_env_def)
  have cd: "commit_diff ex_update_env = [''caligo/main.py'']"
    by (simp add: ex_update_env_def)
  show ?thesis
    using cmd_update_restart_calls [OF g r m c p, of "[''caligo/main.py'']" "on_load Map.empty"]
      cmd_update_restart_calls [OF g r m c p, of "[]" "on_load Map.empty"]
      cmd_update_restart_calls [OF g r m c p, of "[''poetry.lock'']" "on_load Map.empty"]
      v [of "[''poetry.lock'']"]
    by (simp add: t0 same cd reinstall_ok_def)
qed

section \<open>Standard output after \<open>silent\<close>\<close>

text \<open>
  C10. Whatever the body does, and whether it ends normally or raises, after \<^verbatim>\<open>silent\<close>
  the stream \<^verbatim>\<open>sys.stdout\<close> is the one it was on entry, the file opened for
  \<^verbatim>\<open>os.devnull\<close> is no longer open, and the body's exception, if any, is the one that leaves
  the block. The body ran with \<^verbatim>\<open>sys.stdout\<close> bound to that file. When the file cannot be
  opened, nothing is changed.
\<close>

theorem silent_restores_stdout:
  "sys_stdout (snd (silent can_open body w)) = sys_stdout w
   \<and> next_fd w \<notin> open_files (snd (silent True body w))
   \<and> fst (silent True body w) =
       fst (body (w\<lparr>open_files := insert (next_fd w) (open_files w), next_fd := Suc (next_fd w),
                    sys_stdout := FileStream (next_fd w)\<rparr>))
   \<and> silent False body w = (Some (External ''OSError''), w)"
  by (simp add: silent_def Let_def split: prod.splits)

theorem silent_restores_stdout_witness:
  "sys_stdout (snd (silent True (\<lambda>w. (Some (External ''boom''), w\<lparr>sys_stdout := FileStream 9\<rparr>)) ex_io))
     = Console
   \<and> 3 \<notin> open_files (snd (silent True
         (\<lambda>w. (Some (External ''boom''), w\<lparr>sys_stdout := FileStream 9\<rparr>)) ex_io))
   \<and> fst (silent True (\<lambda>w. (Some (External ''boom''), w\<lparr>sys_stdout := FileStream 9\<rparr>)) ex_io)
     = Some (External ''boom'')"
  using silent_restores_stdout [of True
      "\<lambda>w. (Some (External ''boom''), w\<lparr>sys_stdout := FileStream 9\<rparr>)" ex_io]
  by (simp add: ex_io_def)

end
